theory Spec2Isabelle
  imports Complex_Main "HOL-Library.Word"
begin

unbundle bit_operations_syntax

section \<open>Machine types and the hardware trace\<close>

text \<open>
  The two programs are Arduino sketches for ADF5355 synthesizer boards:
  \<^verbatim>\<open>src/test.cpp\<close> (one board on \<^verbatim>\<open>hspi\<close>, frequency planning from the user settings) and
  \<^verbatim>\<open>src/Optics Table/Variable Frequency Setup/10.525_GHz_3s_ON_3s_OFF_Sketch.cpp\<close>
  (two boards on \<^verbatim>\<open>spiA\<close> and \<^verbatim>\<open>spiB\<close>, a fixed register set, chip enable toggled
  every three seconds).

  Every call into the Arduino runtime is an event; a function that only drives the
  hardware is the list of events it issues, in program order. \<^verbatim>\<open>uint8_t\<close>,
  \<^verbatim>\<open>uint16_t\<close> and \<^verbatim>\<open>uint32_t\<close> are words of that width. A \<^verbatim>\<open>double\<close> is
  modelled by the real number it denotes, and an arithmetic operation on doubles by
  the exact operation followed by \<open>round_double\<close>, the rounding of IEEE 754 binary64
  (to nearest, ties to even, subnormal numbers included). Infinities and NaN are
  outside the model: it follows the program as long as no result overflows.
\<close>

type_synonym u8 = "8 word"
type_synonym u16 = "16 word"
type_synonym u32 = "32 word"

datatype level = LOW | HIGH

datatype pin_mode = INPUT | OUTPUT

datatype spi_bus = hspi | spiA | spiB

datatype arg = ArgF real | ArgU nat | ArgI int | ArgS string

datatype event =
    Serial_begin nat
  | Serial_println string
  | Serial_printf string "arg list"
  | PinMode int pin_mode
  | DigitalWrite int level
  | DelayMicroseconds nat
  | Delay nat
  | SpiBegin spi_bus
  | BeginTransaction spi_bus
  | Transfer spi_bus u8
  | EndTransaction spi_bus

text \<open>The bytes shifted out on one bus, in order.\<close>

fun bus_bytes :: "spi_bus \<Rightarrow> event list \<Rightarrow> u8 list" where
  "bus_bytes b [] = []"
| "bus_bytes b (Transfer b' x # es) = (if b' = b then x # bus_bytes b es else bus_bytes b es)"
| "bus_bytes b (e # es) = bus_bytes b es"

text \<open>Console output is diagnostic only; the hardware sees the other events.\<close>

fun is_serial :: "event \<Rightarrow> bool" where
  "is_serial (Serial_begin n) = True"
| "is_serial (Serial_println s) = True"
| "is_serial (Serial_printf f as) = True"
| "is_serial e = False"

definition hw_events :: "event list \<Rightarrow> event list" where
  "hw_events es = filter (\<lambda>e. \<not> is_serial e) es"

text \<open>
  The level of one output pin: \<^verbatim>\<open>digitalWrite\<close> on that pin sets it, nothing else
  changes it. \<open>pin_after\<close> is the level once a trace has run; \<open>while_high\<close> collects
  the events issued while the pin was high.
\<close>

fun pin_step :: "int \<Rightarrow> level \<Rightarrow> event \<Rightarrow> level" where
  "pin_step pin l (DigitalWrite q v) = (if q = pin then v else l)"
| "pin_step pin l e = l"

fun pin_after :: "int \<Rightarrow> level \<Rightarrow> event list \<Rightarrow> level" where
  "pin_after pin l [] = l"
| "pin_after pin l (e # es) = pin_after pin (pin_step pin l e) es"

fun while_high :: "int \<Rightarrow> level \<Rightarrow> event list \<Rightarrow> event list" where
  "while_high pin l [] = []"
| "while_high pin l (e # es) =
     (if l = HIGH then e # while_high pin (pin_step pin l e) es
      else while_high pin (pin_step pin l e) es)"

section \<open>test.cpp: user settings\<close>

datatype OutPower = PWR_MIN | PWR_1 | PWR_2 | PWR_3 | PWR_MAX

text \<open>
  The block of \<^verbatim>\<open>static constexpr\<close> user settings at the top of test.cpp ("edit only
  this block day-to-day"). The functions below take the block as a record, so that a
  property can be stated for every setting; \<open>user_settings\<close> is the block as
  checked in.
\<close>

record UserSettings =
  REF_IN_HZ :: real
  REF_DOUBLER :: bool
  REF_DIV2 :: bool
  R_DIV :: u16
  RF_OUT_HZ :: real
  USE_RFOUTB :: bool
  CHANNEL_STEP_HZ :: real
  OUTPUT_POWER :: OutPower
  OUTPUT_ENABLE :: bool
  TOGGLE_CE_IN_LOOP :: bool

definition user_settings :: UserSettings where
  "user_settings =
     \<lparr> REF_IN_HZ = 10000000, REF_DOUBLER = False, REF_DIV2 = False, R_DIV = 1,
       RF_OUT_HZ = 10525000000, USE_RFOUTB = True, CHANNEL_STEP_HZ = 1000,
       OUTPUT_POWER = PWR_MAX, OUTPUT_ENABLE = True, TOGGLE_CE_IN_LOOP = False \<rparr>"

text \<open>
  The configurations the specification calls valid: positive reference, reference
  divider at least 1, positive channel step.
\<close>

definition valid_settings :: "UserSettings \<Rightarrow> bool" where
  "valid_settings s = (0 < REF_IN_HZ s \<and> 1 \<le> unat (R_DIV s) \<and> 0 < CHANNEL_STEP_HZ s)"

definition PIN_SCLK :: int where "PIN_SCLK = 14"
definition PIN_MOSI :: int where "PIN_MOSI = 15"
definition PIN_LE :: int where "PIN_LE = 27"
definition PIN_CE :: int where "PIN_CE = 25"
definition PIN_LD :: int where "PIN_LD = 26"

section \<open>test.cpp: SPI\<close>

definition pulseLE :: "event list" where
  "pulseLE =
     [DigitalWrite PIN_LE HIGH, DelayMicroseconds 2, DigitalWrite PIN_LE LOW, DelayMicroseconds 2]"

text \<open>\<^verbatim>\<open>hspi.transfer\<close> takes a \<^verbatim>\<open>uint8_t\<close>: the masked 32-bit value is narrowed.\<close>

definition writeReg :: "u32 \<Rightarrow> event list" where
  "writeReg reg =
     [BeginTransaction hspi,
      Transfer hspi (ucast (drop_bit 24 reg AND 0xFF)),
      Transfer hspi (ucast (drop_bit 16 reg AND 0xFF)),
      Transfer hspi (ucast (drop_bit 8 reg AND 0xFF)),
      Transfer hspi (ucast (drop_bit 0 reg AND 0xFF)),
      EndTransaction hspi]
     @ pulseLE"

section \<open>test.cpp: frequency planning\<close>

record PllParams =
  pfd_hz :: real
  INT' :: u32
  FRAC :: u32
  MOD :: u32
  out_div :: u8
  rfouta_en :: bool
  rfoutb_en :: bool
  pwr :: OutPower

text \<open>\<^verbatim>\<open>while (b) { uint32_t t = a % b; a = b; b = t; } return a;\<close>\<close>

function gcd_u32 :: "u32 \<Rightarrow> u32 \<Rightarrow> u32" where
  "gcd_u32 a b = (if b \<noteq> 0 then gcd_u32 b (a mod b) else a)"
  by pat_completeness auto
termination
proof (relation "measure (\<lambda>(a, b). unat b)")
  show "wf (measure (\<lambda>(a, b). unat b))" by simp
next
  fix a b :: u32
  assume "b \<noteq> 0"
  then have "0 < unat b" by (simp add: unat_gt_0)
  then have "unat a mod unat b < unat b" by simp
  then show "((b, a mod b), (a, b)) \<in> measure (\<lambda>(a, b). unat b)"
    by (simp add: unat_mod_distrib)
qed

text \<open>
  \<^verbatim>\<open>llround\<close> rounds to the nearest integer, halfway cases away from zero. The
  result is a \<^verbatim>\<open>long long\<close>; the model is exact for values inside its range.
\<close>

definition llround :: "real \<Rightarrow> int" where
  "llround x = (if 0 \<le> x then \<lfloor>x + 1 / 2\<rfloor> else - \<lfloor>- x + 1 / 2\<rfloor>)"

text \<open>
  The arithmetic of \<^verbatim>\<open>double\<close>. A finite double is \<open>k * 2^(e - 52)\<close> with
  \<open>\<bar>k\<bar> < 2^53\<close> and \<open>- 1022 \<le> e\<close>. \<open>double_exponent x\<close> is the \<open>e\<close> of the binade of a
  positive \<open>x\<close>: \<open>\<lfloor>log\<^sub>2 x\<rfloor>\<close>, computed from the number of binary digits of \<open>\<lfloor>x\<rfloor>\<close> (of
  \<open>\<lceil>1 / x\<rceil> - 1\<close> below 1), and not less than \<open>- 1022\<close>, where the subnormal numbers
  begin. \<open>round_double x\<close> is the multiple of \<open>2^(e - 52)\<close> nearest to \<open>x\<close>, the even one
  of two equally near: what \<^verbatim>\<open>+\<close>, \<^verbatim>\<open>-\<close>, \<^verbatim>\<open>*\<close> and \<^verbatim>\<open>/\<close> return for the exact result
  \<open>x\<close>.
\<close>

function bit_length :: "nat \<Rightarrow> nat" where
  "bit_length n = (if n = 0 then 0 else 1 + bit_length (n div 2))"
  by pat_completeness auto
termination
  by (relation "measure (\<lambda>n. n)") auto

definition pow2 :: "int \<Rightarrow> real" where
  "pow2 k = (if 0 \<le> k then 2 ^ nat k else 1 / 2 ^ nat (- k))"

definition double_exponent :: "real \<Rightarrow> int" where
  "double_exponent x =
     max (- 1022)
       (if 1 \<le> x then int (bit_length (nat \<lfloor>x\<rfloor>)) - 1
        else - int (bit_length (nat (\<lceil>1 / x\<rceil> - 1))))"

definition round_half_even :: "real \<Rightarrow> int" where
  "round_half_even y =
     (if y - of_int \<lfloor>y\<rfloor> < 1 / 2 then \<lfloor>y\<rfloor>
      else if y - of_int \<lfloor>y\<rfloor> > 1 / 2 then \<lfloor>y\<rfloor> + 1
      else if even \<lfloor>y\<rfloor> then \<lfloor>y\<rfloor> else \<lfloor>y\<rfloor> + 1)"

definition round_double :: "real \<Rightarrow> real" where
  "round_double x =
     (if x = 0 then 0
      else of_int (round_half_even (x / pow2 (double_exponent \<bar>x\<bar> - 52)))
             * pow2 (double_exponent \<bar>x\<bar> - 52))"

definition VCO_MIN :: real where "VCO_MIN = 6000000000"
definition VCO_MAX :: real where "VCO_MAX = 13000000000"

text \<open>
  \<^verbatim>\<open>uint8_t div = 1; while ((rf_out_hz * div) < VCO_MIN && div < 64) div *= 2;\<close>
  The loop as a function of its variable. From \<^verbatim>\<open>div = 0\<close> the C++ loop would never
  leave, so the function is partial: not returning is \<open>None\<close>. The product of a
  double with a power of two up to 64 is exact, so it is not rounded here.
\<close>

partial_function (option) out_div_loop :: "real \<Rightarrow> u8 \<Rightarrow> u8 option" where
  "out_div_loop rf_out_hz d =
     (if rf_out_hz * real (unat d) < VCO_MIN \<and> d < 64
      then out_div_loop rf_out_hz (d * 2) else Some d)"

text \<open>
  The locals of \<^verbatim>\<open>planFrequency\<close>, as functions of what they are computed from:
  \<^verbatim>\<open>p.pfd_hz\<close>; \<^verbatim>\<open>N\<close>; the \<^verbatim>\<open>long long\<close> that \<^verbatim>\<open>llround\<close> returns for the modulus;
  \<^verbatim>\<open>mod\<close> as converted and after its two clamps; \<^verbatim>\<open>INT\<close>, \<^verbatim>\<open>frac_f\<close> and \<^verbatim>\<open>FRAC\<close> as
  first computed; and \<^verbatim>\<open>FRAC\<close> after the rounding-overflow step, before the reduction.
\<close>

definition plan_pfd :: "UserSettings \<Rightarrow> real" where
  "plan_pfd s =
     round_double
       (round_double
          (round_double (REF_IN_HZ s * (if REF_DOUBLER s then 2 else 1))
             / (if REF_DIV2 s then 2 else 1))
        / real (unat (R_DIV s)))"

definition plan_N :: "UserSettings \<Rightarrow> real \<Rightarrow> u8 \<Rightarrow> real" where
  "plan_N s rf_out_hz d = round_double ((rf_out_hz * real (unat d)) / plan_pfd s)"

definition plan_mod_round :: "UserSettings \<Rightarrow> u8 \<Rightarrow> int" where
  "plan_mod_round s d =
     llround (round_double (plan_pfd s / round_double (CHANNEL_STEP_HZ s * real (unat d))))"

text \<open>\<^verbatim>\<open>(uint32_t)llround(...)\<close>: the \<^verbatim>\<open>long long\<close> is reduced modulo \<open>2^32\<close>.\<close>

definition plan_mod_raw :: "UserSettings \<Rightarrow> u8 \<Rightarrow> u32" where
  "plan_mod_raw s d = word_of_int (plan_mod_round s d)"

definition plan_mod :: "UserSettings \<Rightarrow> u8 \<Rightarrow> u32" where
  "plan_mod s d =
     (let m = plan_mod_raw s d;
          m = (if m < 2 then 2 else m);
          m = (if m > 0xFFFFFF then 0xFFFFFF else m)
      in m)"

text \<open>
  \<^verbatim>\<open>(uint32_t)floor(N)\<close> is a conversion from \<^verbatim>\<open>double\<close>, defined in C++ only for
  \<open>0 \<le> \<lfloor>N\<rfloor> < 2^32\<close>; the model reduces modulo \<open>2^32\<close> outside that range.
\<close>

definition plan_INT :: "UserSettings \<Rightarrow> real \<Rightarrow> u8 \<Rightarrow> u32" where
  "plan_INT s rf_out_hz d = word_of_int \<lfloor>plan_N s rf_out_hz d\<rfloor>"

definition plan_frac_f :: "UserSettings \<Rightarrow> real \<Rightarrow> u8 \<Rightarrow> real" where
  "plan_frac_f s rf_out_hz d =
     round_double
       (round_double (plan_N s rf_out_hz d - real (unat (plan_INT s rf_out_hz d)))
        * real (unat (plan_mod s d)))"

definition plan_FRAC :: "UserSettings \<Rightarrow> real \<Rightarrow> u8 \<Rightarrow> u32" where
  "plan_FRAC s rf_out_hz d = word_of_int (llround (plan_frac_f s rf_out_hz d))"

definition plan_FRAC_carried :: "UserSettings \<Rightarrow> real \<Rightarrow> u8 \<Rightarrow> u32" where
  "plan_FRAC_carried s rf_out_hz d =
     (if plan_FRAC s rf_out_hz d = plan_mod s d then 0 else plan_FRAC s rf_out_hz d)"

text \<open>\<^verbatim>\<open>planFrequency\<close> returns the parameters and what it printed.\<close>

definition planFrequency :: "UserSettings \<Rightarrow> real \<Rightarrow> (PllParams \<times> event list) option" where
  "planFrequency s rf_out_hz =
     (case out_div_loop rf_out_hz 1 of
        None \<Rightarrow> None
      | Some d \<Rightarrow>
          (let vco = rf_out_hz * real (unat d);
               printed =
                 (if vco > VCO_MAX
                  then [Serial_println ''ERROR: Cannot place VCO in range with available dividers.'']
                  else []);
               m = plan_mod s d;
               INT0 = plan_INT s rf_out_hz d;
               FRAC0 = plan_FRAC s rf_out_hz d;
               INT1 = (if FRAC0 = m then INT0 + 1 else INT0);
               FRAC1 = plan_FRAC_carried s rf_out_hz d;
               g = gcd_u32 FRAC1 m;
               FRAC2 = (if g > 1 then FRAC1 div g else FRAC1);
               m2 = (if g > 1 then m div g else m)
           in Some
                (\<lparr> pfd_hz = plan_pfd s, INT' = INT1, FRAC = FRAC2, MOD = m2, out_div = d,
                   rfouta_en = (\<not> USE_RFOUTB s) \<and> OUTPUT_ENABLE s,
                   rfoutb_en = USE_RFOUTB s \<and> OUTPUT_ENABLE s,
                   pwr = OUTPUT_POWER s \<rparr>,
                 printed)))"

section \<open>test.cpp: register image\<close>

definition withAddr :: "u32 \<Rightarrow> u8 \<Rightarrow> u32" where
  "withAddr word r = (word AND NOT 0xF) OR ucast (r AND 0x0F)"

text \<open>The global \<^verbatim>\<open>regImage[13]\<close> as initialised.\<close>

definition regImage_init :: "u32 list" where
  "regImage_init =
     [0x0001040C, 0x0061300B, 0x00C0000A, 0x00000009, 0x102D0428, 0x12000007, 0x35000006,
      0x00800005, 0x00000004, 0x00000003, 0x00001002, 0x00000A41, 0x00550000]"

text \<open>One line \<^verbatim>\<open>regImage[r] = withAddr(regImage[r], r);\<close>\<close>

definition patch_addr :: "nat \<Rightarrow> u32 list \<Rightarrow> u32 list" where
  "patch_addr r regImage = regImage[r := withAddr (regImage ! r) (of_nat r)]"

text \<open>
  \<^verbatim>\<open>applyFrequencyToRegs\<close>: the thirteen lines, index 12 first, then the diagnostic
  print. It returns the new image and the events. \<^verbatim>\<open>applyOutputToRegs\<close> has an empty
  body.
\<close>

definition applyFrequencyToRegs ::
    "UserSettings \<Rightarrow> PllParams \<Rightarrow> u32 list \<Rightarrow> u32 list \<times> event list" where
  "applyFrequencyToRegs s p regImage =
     (fold patch_addr [12, 11, 10, 9, 8, 7, 6, 5, 4, 3, 2, 1, 0] regImage,
      [Serial_printf ''PFD=%.3f MHz | VCO=%.3f GHz | div=%u | INT=%lu FRAC=%lu MOD=%lu\<newline>''
         [ArgF (pfd_hz p / 1000000),
          ArgF ((RF_OUT_HZ s * real (unat (out_div p))) / 1000000000),
          ArgU (unat (out_div p)),
          ArgU (unat (INT' p)), ArgU (unat (FRAC p)), ArgU (unat (MOD p))]])"

definition applyOutputToRegs :: "PllParams \<Rightarrow> u32 list \<Rightarrow> u32 list" where
  "applyOutputToRegs p regImage = regImage"

text \<open>\<^verbatim>\<open>for (int i = 12; i >= 0; --i) { writeReg(regImage[i]); delay(2); }\<close>\<close>

function writeAllRegs_loop :: "u32 list \<Rightarrow> int \<Rightarrow> event list" where
  "writeAllRegs_loop regImage i =
     (if i \<ge> 0 then writeReg (regImage ! nat i) @ [Delay 2] @ writeAllRegs_loop regImage (i - 1)
      else [])"
  by pat_completeness auto
termination
  by (relation "measure (\<lambda>(regImage, i). nat (i + 1))") auto

definition writeAllRegs :: "u32 list \<Rightarrow> event list" where
  "writeAllRegs regImage = writeAllRegs_loop regImage 12"

text \<open>
  \<^verbatim>\<open>configureFromUserSettings\<close> plans for the configured \<^verbatim>\<open>RF_OUT_HZ\<close>, patches
  the global image and writes it. It returns the image it leaves and the events.
\<close>

definition configureFromUserSettings ::
    "UserSettings \<Rightarrow> u32 list \<Rightarrow> (u32 list \<times> event list) option" where
  "configureFromUserSettings s regImage =
     (case planFrequency s (RF_OUT_HZ s) of
        None \<Rightarrow> None
      | Some (p, printed) \<Rightarrow>
          (let (regImage1, printed1) = applyFrequencyToRegs s p regImage;
               regImage2 = applyOutputToRegs p regImage1
           in Some
                (regImage2,
                 printed @ printed1
                 @ [Serial_println ''Writing register image (R12..R0)...'']
                 @ writeAllRegs regImage2
                 @ [Serial_println ''Done.''])))"

section \<open>The dual-board sketch\<close>

definition A_SCLK :: int where "A_SCLK = 18"
definition A_MOSI :: int where "A_MOSI = 19"
definition A_LE :: int where "A_LE = 20"
definition A_CE :: int where "A_CE = 17"
definition B_SCLK :: int where "B_SCLK = 10"
definition B_MOSI :: int where "B_MOSI = 11"
definition B_LE :: int where "B_LE = 12"
definition B_CE :: int where "B_CE = 13"

text \<open>The sketch's \<^verbatim>\<open>pulseLE(pinLE)\<close> and \<^verbatim>\<open>writeReg(spi, pinLE, reg)\<close>.\<close>

definition sketch_pulseLE :: "int \<Rightarrow> event list" where
  "sketch_pulseLE pinLE =
     [DigitalWrite pinLE HIGH, DelayMicroseconds 2, DigitalWrite pinLE LOW, DelayMicroseconds 2]"

definition sketch_writeReg :: "spi_bus \<Rightarrow> int \<Rightarrow> u32 \<Rightarrow> event list" where
  "sketch_writeReg spi pinLE reg =
     [BeginTransaction spi,
      Transfer spi (ucast (drop_bit 24 reg AND 0xFF)),
      Transfer spi (ucast (drop_bit 16 reg AND 0xFF)),
      Transfer spi (ucast (drop_bit 8 reg AND 0xFF)),
      Transfer spi (ucast (drop_bit 0 reg AND 0xFF)),
      EndTransaction spi]
     @ sketch_pulseLE pinLE"

text \<open>The local \<^verbatim>\<open>regs[13]\<close> of \<^verbatim>\<open>programPLL\<close>.\<close>

definition sketch_regs :: "u32 list" where
  "sketch_regs =
     [0x0001040C, 0x0061300B, 0x00C0000A, 0x00000009, 0x102D0428, 0x12000007, 0x35000006,
      0x00800005, 0x00000004, 0x00000003, 0x00001002, 0x00000A41, 0x00550000]"

text \<open>
  \<^verbatim>\<open>for (int i = 0; i < 13; i++) { int rnum = 12 - i; Serial.printf(...);
  writeReg(spi, pinLE, regs[i]); delay(2); }\<close>
\<close>

function programPLL_loop :: "spi_bus \<Rightarrow> int \<Rightarrow> string \<Rightarrow> u32 list \<Rightarrow> int \<Rightarrow> event list" where
  "programPLL_loop spi pinLE name regs i =
     (if i < 13
      then [Serial_printf ''%s: Writing R%d = 0x%08lX\<newline>''
              [ArgS name, ArgI (12 - i), ArgU (unat (regs ! nat i))]]
           @ sketch_writeReg spi pinLE (regs ! nat i)
           @ [Delay 2]
           @ programPLL_loop spi pinLE name regs (i + 1)
      else [])"
  by pat_completeness auto
termination
  by (relation "measure (\<lambda>(spi, pinLE, name, regs, i). nat (13 - i))") auto

definition programPLL :: "spi_bus \<Rightarrow> int \<Rightarrow> string \<Rightarrow> event list" where
  "programPLL spi pinLE name =
     [Serial_printf ''\<newline>Programming %s for 10.525 GHz RFOUTB...\<newline>'' [ArgS name]]
     @ programPLL_loop spi pinLE name sketch_regs 0
     @ [Serial_printf ''%s: Done.\<newline>'' [ArgS name]]"

definition sketch_setup :: "event list" where
  "sketch_setup =
     [Serial_begin 115200, Delay 1000,
      Serial_println ''Dual ADF5355 test: Board A on SPI0, Board B on SPI1'',
      PinMode A_LE OUTPUT, PinMode A_CE OUTPUT, PinMode B_LE OUTPUT, PinMode B_CE OUTPUT,
      DigitalWrite A_LE LOW, DigitalWrite A_CE LOW, DigitalWrite B_LE LOW, DigitalWrite B_CE LOW,
      SpiBegin spiA, SpiBegin spiB]
     @ programPLL spiA A_LE ''ADF-A''
     @ programPLL spiB B_LE ''ADF-B''"

definition sketch_loop :: "event list" where
  "sketch_loop =
     [Serial_println ''BOTH ON (CE HIGH)'',
      DigitalWrite A_CE HIGH, DigitalWrite B_CE HIGH, Delay 3000,
      Serial_println ''BOTH OFF (CE LOW)'',
      DigitalWrite A_CE LOW, DigitalWrite B_CE LOW, Delay 3000]"

text \<open>The Arduino runtime calls \<^verbatim>\<open>loop\<close> again and again: the events of \<open>n\<close> rounds.\<close>

primrec sketch_loops :: "nat \<Rightarrow> event list" where
  "sketch_loops 0 = []"
| "sketch_loops (Suc n) = sketch_loop @ sketch_loops n"

text \<open>
  A trace keeps the two chip-enable lines together when every write to board A's line
  is followed at once, with no event in between, by a write of the same level to board
  B's line, and board B's line is written nowhere else.
\<close>

fun ce_back_to_back :: "event list \<Rightarrow> bool" where
  "ce_back_to_back [] = True"
| "ce_back_to_back (DigitalWrite p v # es) =
     (if p = A_CE
      then (case es of
              DigitalWrite q w # es' \<Rightarrow> q = B_CE \<and> w = v \<and> ce_back_to_back es'
            | _ \<Rightarrow> False)
      else if p = B_CE then False
      else ce_back_to_back es)"
| "ce_back_to_back (e # es) = ce_back_to_back es"

declare gcd_u32.simps [simp del]
declare bit_length.simps [simp del]
declare writeAllRegs_loop.simps [simp del]
declare programPLL_loop.simps [simp del]

section \<open>Frequency planning at the checked-in settings\<close>

lemma bit_length_0 [simp]: "bit_length 0 = 0"
  by (simp add: bit_length.simps)

lemma bit_length_1 [simp]: "bit_length 1 = 1" "bit_length (Suc 0) = 1"
  by (simp_all add: bit_length.simps [of 1] bit_length.simps [of "Suc 0"])

lemma bit_length_numeral [simp]:
  "bit_length (numeral k) = 1 + bit_length (numeral k div 2)"
  by (simp add: bit_length.simps [of "numeral k"])

lemmas double_defs =
  round_double_def round_half_even_def double_exponent_def pow2_def

lemmas plan_defs =
  planFrequency_def plan_N_def plan_pfd_def plan_mod_def plan_mod_raw_def plan_mod_round_def
  plan_INT_def plan_frac_f_def plan_FRAC_def plan_FRAC_carried_def llround_def double_defs
  VCO_MIN_def VCO_MAX_def Let_def

lemma gcd_u32_0 [simp]: "gcd_u32 a 0 = a"
  by (simp add: gcd_u32.simps)

lemma gcd_u32_numeral [simp]:
  "gcd_u32 a (numeral b) =
     (if (numeral b :: u32) \<noteq> 0 then gcd_u32 (numeral b) (a mod numeral b) else a)"
  by (rule gcd_u32.simps)

lemma gcd_u32_1 [simp]: "gcd_u32 a 1 = 1"
  by (simp add: gcd_u32.simps [of a 1] gcd_u32.simps [of 1 0])

text \<open>
  C4. With the settings as checked in (reference 10 MHz, no doubler, no divide-by-2,
  R divider 1, channel step 1 kHz, VCO band 6 GHz to 13 GHz) and the target
  10.525 GHz, \<^verbatim>\<open>planFrequency\<close> returns \<open>pfd_hz = 10e6\<close>, \<open>out_div = 1\<close>, \<open>INT = 1052\<close>
  and, after the reduction, \<open>FRAC = 1\<close> and \<open>MOD = 2\<close>, and prints nothing; on the
  way \<open>N = 1052.5\<close> and the modulus before the reduction is 10000. Every
  intermediate value is a representable \<^verbatim>\<open>double\<close>: no operation rounds.
\<close>

theorem planFrequency_10525MHz:
  "planFrequency user_settings 10525000000 =
     Some (\<lparr> pfd_hz = 10000000, INT' = 1052, FRAC = 1, MOD = 2, out_div = 1,
             rfouta_en = False, rfoutb_en = True, pwr = PWR_MAX \<rparr>, [])
   \<and> out_div_loop 10525000000 1 = Some 1
   \<and> plan_N user_settings 10525000000 1 = 1052 + 1 / 2
   \<and> plan_mod user_settings 1 = 10000
   \<and> RF_OUT_HZ user_settings = 10525000000"
  by (simp add: plan_defs out_div_loop.simps user_settings_def)

text \<open>
  C3, evaluated where it fails. For the target 10 GHz the ratio \<open>N = 1000\<close> is whole,
  \<open>FRAC = 0\<close>, and the reduction divides the modulus by \<open>gcd (0, 10000) = 10000\<close>: the
  parameters returned have \<open>MOD = 1\<close>, below the minimum 2 that the clamp
  \<^verbatim>\<open>if (mod < 2) mod = 2;\<close> had just enforced.
\<close>

theorem planFrequency_10GHz_MOD_1:
  "planFrequency user_settings 10000000000 =
     Some (\<lparr> pfd_hz = 10000000, INT' = 1000, FRAC = 0, MOD = 1, out_div = 1,
             rfouta_en = False, rfoutb_en = True, pwr = PWR_MAX \<rparr>, [])"
  by (simp add: plan_defs out_div_loop.simps user_settings_def)

section \<open>The output divider\<close>

lemma unat_pow2_u8: "k \<le> 6 \<Longrightarrow> unat ((2::u8) ^ k) = 2 ^ k"
proof -
  assume "k \<le> 6"
  then have "(2::nat) ^ k \<le> 2 ^ 6" by (intro power_increasing) simp_all
  then have lt: "(2::nat) ^ k < 2 ^ LENGTH(8)" by simp
  have "(2::u8) ^ k = word_of_nat (2 ^ k)" by simp
  then have "unat ((2::u8) ^ k) = 2 ^ k mod 2 ^ LENGTH(8)" by (simp only: unat_of_nat)
  with lt show ?thesis by (simp only: mod_less)
qed

lemma pow2_less_64: "k < 6 \<Longrightarrow> (2::u8) ^ k < 64"
proof -
  assume k: "k < 6"
  then have "(2::nat) ^ k < 2 ^ 6" by (intro power_strict_increasing) simp_all
  with k show ?thesis by (simp add: word_less_nat_alt unat_pow2_u8)
qed

lemma out_div_loop_step:
  assumes "k < 6" "rf * 2 ^ k < VCO_MIN"
  shows "out_div_loop rf (2 ^ k) = out_div_loop rf (2 ^ Suc k)"
proof -
  have "rf * real (unat ((2::u8) ^ k)) < VCO_MIN \<and> (2::u8) ^ k < 64"
    using assms by (simp add: unat_pow2_u8 pow2_less_64)
  then show ?thesis
    by (subst out_div_loop.simps) (simp add: mult.commute)
qed

lemma out_div_loop_stop:
  assumes "k \<le> 6" "k = 6 \<or> VCO_MIN \<le> rf * 2 ^ k"
  shows "out_div_loop rf (2 ^ k) = Some (2 ^ k)"
proof -
  have c: "\<not> (rf * real (unat ((2::u8) ^ k)) < VCO_MIN \<and> (2::u8) ^ k < 64)"
    using assms by (auto simp: unat_pow2_u8)
  show ?thesis
    by (subst out_div_loop.simps) (simp only: c if_False)
qed

lemma out_div_loop_run:
  "k \<le> 6 \<Longrightarrow> (\<forall>j<k. rf * 2 ^ j < VCO_MIN) \<Longrightarrow> out_div_loop rf 1 = out_div_loop rf (2 ^ k)"
proof (induction k)
  case 0
  then show ?case by simp
next
  case (Suc k)
  then have "out_div_loop rf 1 = out_div_loop rf (2 ^ k)" by simp
  also have "\<dots> = out_div_loop rf (2 ^ Suc k)"
    using Suc.prems by (intro out_div_loop_step) auto
  finally show ?case .
qed

lemma out_div_loop_result:
  "\<exists>k\<le>6. out_div_loop rf 1 = Some (2 ^ k) \<and> (\<forall>j<k. rf * 2 ^ j < VCO_MIN)
      \<and> (k = 6 \<or> VCO_MIN \<le> rf * 2 ^ k)"
proof -
  define P where "P k \<longleftrightarrow> k = 6 \<or> VCO_MIN \<le> rf * 2 ^ k" for k :: nat
  define k where "k = (LEAST k. P k)"
  have P6: "P 6" by (simp add: P_def)
  then have Pk: "P k" unfolding k_def by (rule LeastI)
  have k6: "k \<le> 6" unfolding k_def using P6 by (rule Least_le)
  have below: "\<forall>j<k. rf * 2 ^ j < VCO_MIN"
  proof (intro allI impI)
    fix j assume "j < k"
    then have "\<not> P j" unfolding k_def by (rule not_less_Least)
    then show "rf * 2 ^ j < VCO_MIN" by (simp add: P_def)
  qed
  have "out_div_loop rf 1 = out_div_loop rf (2 ^ k)"
    using k6 below by (rule out_div_loop_run)
  also have "\<dots> = Some (2 ^ k)"
    using k6 Pk by (intro out_div_loop_stop) (simp_all add: P_def)
  finally show ?thesis using k6 below Pk by (auto simp: P_def)
qed

lemma planFrequency_out_div:
  "out_div_loop rf 1 = Some d \<Longrightarrow>
     \<exists>p. planFrequency s rf =
           Some (p, if rf * real (unat d) > VCO_MAX
                    then [Serial_println ''ERROR: Cannot place VCO in range with available dividers.'']
                    else [])
         \<and> out_div p = d"
  by (simp add: planFrequency_def Let_def)

text \<open>
  C1, as the program has it. For every valid configuration and every positive target
  with \<open>VCO_MIN / 64 \<le> rf \<le> VCO_MAX\<close>, \<^verbatim>\<open>planFrequency\<close> returns (printing nothing)
  parameters whose \<open>out_div\<close> is a power of two \<open>2^k\<close>, \<open>k \<le> 6\<close>, the smallest one
  that brings \<open>rf * out_div\<close> up to \<open>VCO_MIN\<close> (every smaller power of two leaves it
  below), and \<open>VCO_MIN \<le> rf * out_div \<le> VCO_MAX\<close>. Multiplying a \<^verbatim>\<open>double\<close> by a
  power of two up to 64 and comparing it with a constant are exact, so the divider
  chosen in the model is the program's.
\<close>

theorem planFrequency_vco_in_band:
  assumes "valid_settings s" and "0 < rf" and "VCO_MIN \<le> rf * 64" and "rf \<le> VCO_MAX"
  shows "\<exists>p. planFrequency s rf = Some (p, [])
           \<and> (\<exists>k\<le>6. out_div p = 2 ^ k \<and> (\<forall>j<k. rf * 2 ^ j < VCO_MIN))
           \<and> VCO_MIN \<le> rf * real (unat (out_div p))
           \<and> rf * real (unat (out_div p)) \<le> VCO_MAX"
proof -
  obtain k where k: "k \<le> 6" "out_div_loop rf 1 = Some (2 ^ k)"
      "\<forall>j<k. rf * 2 ^ j < VCO_MIN" "k = 6 \<or> VCO_MIN \<le> rf * 2 ^ k"
    using out_div_loop_result [of rf] by blast
  have u: "real (unat ((2::u8) ^ k)) = 2 ^ k"
    using k(1) by (simp add: unat_pow2_u8)
  have lo: "VCO_MIN \<le> rf * 2 ^ k"
    using k(4) assms(3) by auto
  have hi: "rf * 2 ^ k \<le> VCO_MAX"
  proof (cases k)
    case 0
    then show ?thesis using assms(4) by simp
  next
    case (Suc j)
    then have "rf * 2 ^ j < VCO_MIN" using k(3) by simp
    then have "rf * 2 ^ k < 2 * VCO_MIN" using Suc by simp
    then show ?thesis by (simp add: VCO_MIN_def VCO_MAX_def)
  qed
  obtain p where p: "planFrequency s rf =
       Some (p, if rf * real (unat ((2::u8) ^ k)) > VCO_MAX
                then [Serial_println ''ERROR: Cannot place VCO in range with available dividers.'']
                else [])" "out_div p = 2 ^ k"
    using planFrequency_out_div [OF k(2), of s] by blast
  have lo': "VCO_MIN \<le> rf * real (unat (out_div p))"
    using lo by (simp only: p(2) u)
  have hi': "rf * real (unat (out_div p)) \<le> VCO_MAX"
    using hi by (simp only: p(2) u)
  have "\<not> rf * real (unat ((2::u8) ^ k)) > VCO_MAX"
    using hi by (simp only: u not_less)
  with p(1) have "planFrequency s rf = Some (p, [])"
    by (simp only: if_False)
  with p(2) k(1,3) lo' hi' show ?thesis
    by blast
qed

theorem planFrequency_vco_in_band_witness:
  "valid_settings user_settings \<and> (0::real) < 10525000000 \<and> VCO_MIN \<le> 10525000000 * 64
   \<and> 10525000000 \<le> VCO_MAX
   \<and> (\<exists>p. planFrequency user_settings 10525000000 = Some (p, [])
           \<and> (\<exists>k\<le>6. out_div p = 2 ^ k \<and> (\<forall>j<k. 10525000000 * 2 ^ j < VCO_MIN))
           \<and> VCO_MIN \<le> 10525000000 * real (unat (out_div p))
           \<and> 10525000000 * real (unat (out_div p)) \<le> VCO_MAX)"
proof -
  have v: "valid_settings user_settings"
    by (simp add: valid_settings_def user_settings_def)
  have p: "(0::real) < 10525000000" by simp
  have lo: "VCO_MIN \<le> 10525000000 * 64" by (simp add: VCO_MIN_def)
  have hi: "10525000000 \<le> VCO_MAX" by (simp add: VCO_MAX_def)
  from planFrequency_vco_in_band [OF v p lo hi] v p lo hi show ?thesis
    by (intro conjI)
qed

text \<open>
  C1 as stated, for every positive target, fails at both ends of the band. At 14 GHz
  the loop does not run, \<open>out_div = 1\<close> and the VCO frequency 14 GHz is above
  \<open>VCO_MAX\<close>; at 1.640625 MHz the loop stops at the bound 64 and the VCO frequency
  105 MHz is below \<open>VCO_MIN\<close>. Parameters are returned in both cases.
\<close>

theorem planFrequency_vco_out_of_band:
  "map_option (out_div \<circ> fst) (planFrequency user_settings 14000000000) = Some 1
   \<and> \<not> 14000000000 * real (unat (1::u8)) \<le> VCO_MAX
   \<and> map_option (out_div \<circ> fst) (planFrequency user_settings 1640625) = Some 64
   \<and> \<not> VCO_MIN \<le> 1640625 * real (unat (64::u8))"
  by (simp add: plan_defs out_div_loop.simps user_settings_def)

section \<open>The modulus\<close>

text \<open>
  The quotients are rounded as the program rounds them. The double nearest to 10.24
  is \<open>5764607523034235 / 2^49\<close>, a little above 10.24: the exact quotient of 10 MHz
  by it lies just below 976562.5 and would round to 976562, the double quotient is
  976562.5 and \<^verbatim>\<open>llround\<close> returns 976563. For the target 6000000500 Hz the double
  \<open>N\<close> lies below 600.00005: \<open>FRAC\<close> rounds to 0 and the reduction leaves \<open>MOD = 1\<close>.
\<close>

lemma plan_mod_rounded_quotient:
  "plan_mod_round (user_settings\<lparr>CHANNEL_STEP_HZ := 5764607523034235 / 562949953421312\<rparr>) 1 = 976563
   \<and> \<lfloor>(10000000::real) / (5764607523034235 / 562949953421312) + 1 / 2\<rfloor> = 976562"
  by (simp add: plan_defs user_settings_def)

lemma planFrequency_rounded_N:
  "planFrequency user_settings 6000000500 =
     Some (\<lparr> pfd_hz = 10000000, INT' = 600, FRAC = 0, MOD = 1, out_div = 1,
             rfouta_en = False, rfoutb_en = True, pwr = PWR_MAX \<rparr>, [])
   \<and> plan_N user_settings 6000000500 1 = 5277656253129451 / 8796093022208"
  by (simp add: plan_defs out_div_loop.simps user_settings_def)










section \<open>The register image\<close>

lemma withAddr_low: "withAddr w a AND 0xF = ucast (a AND 0xF)"
  unfolding withAddr_def
  by (rule bit_word_eqI) (auto simp: bit_simps)

lemma withAddr_high: "withAddr w a AND NOT 0xF = w AND NOT 0xF"
  unfolding withAddr_def
  by (rule bit_word_eqI) (auto simp: bit_simps)

lemma byte_of_word:
  "(ucast (drop_bit n reg AND 0xFF) :: u8) = of_nat (unat (reg :: u32) div 2 ^ n mod 256)"
proof -
  have m: "(0xFF :: u32) = mask 8" by (simp add: mask_eq_exp_minus_1)
  have "unat (drop_bit n reg AND mask 8) = unat (take_bit 8 (drop_bit n reg))"
    by (simp only: take_bit_eq_mask)
  also have "\<dots> = take_bit 8 (unat (drop_bit n reg))"
    by (simp only: unsigned_take_bit_eq)
  also have "\<dots> = take_bit 8 (drop_bit n (unat reg))"
    by (simp only: unat_drop_bit_eq)
  also have "\<dots> = unat reg div 2 ^ n mod 2 ^ 8"
    by (simp only: take_bit_eq_mod drop_bit_eq_div)
  finally have "unat (drop_bit n reg AND 0xFF) = unat reg div 2 ^ n mod 256"
    by (simp add: m)
  then show ?thesis
    by (simp add: unsigned_ucast_eq word_unat_eq_iff unat_of_nat take_bit_eq_mod)
qed

lemma length_patch_addr: "length (patch_addr r regImage) = length regImage"
  by (simp add: patch_addr_def)

lemma nth_patch_addr:
  "patch_addr r' regImage ! r =
     (if r = r' \<and> r < length regImage then withAddr (regImage ! r) (of_nat r) else regImage ! r)"
  by (cases "r' < length regImage")
     (auto simp: patch_addr_def nth_list_update list_update_beyond not_less)

lemma lt13:
  "r < 13 \<Longrightarrow> r = 0 \<or> r = 1 \<or> r = 2 \<or> r = 3 \<or> r = 4 \<or> r = 5 \<or> r = 6 \<or> r = 7 \<or> r = 8
     \<or> r = 9 \<or> r = 10 \<or> r = 11 \<or> r = (12::nat)"
  by arith

lemma nth_patched:
  assumes "length regImage = 13" "r < 13"
  shows "fold patch_addr [12, 11, 10, 9, 8, 7, 6, 5, 4, 3, 2, 1, 0] regImage ! r
           = withAddr (regImage ! r) (of_nat r)"
  using lt13 [OF assms(2)] assms(1)
  by (auto simp: nth_patch_addr length_patch_addr)

lemma addr_low_nat: "r < 13 \<Longrightarrow> unat (withAddr w (of_nat r) AND 0xF) = r"
  using lt13 [of r] by (auto simp: withAddr_low)

lemma length_fold_patch_addr: "length (fold patch_addr rs regImage) = length regImage"
  by (induction rs arbitrary: regImage) (simp_all add: length_patch_addr)

text \<open>
  C7. For every 13-word image and every index \<open>r\<close> in 0..12: after
  \<^verbatim>\<open>applyFrequencyToRegs\<close> and \<^verbatim>\<open>applyOutputToRegs\<close> the image still has 13 words,
  the low four bits of the word at index \<open>r\<close> are \<open>r\<close>, and every other bit of that
  word is the one the image had before. (No field is patched in between: both
  patchers are placeholders.)
\<close>

theorem applyFrequencyToRegs_address_bits:
  assumes "length regImage = 13" and "r < 13"
  shows "length (applyOutputToRegs p (fst (applyFrequencyToRegs s p regImage))) = 13
         \<and> unat ((applyOutputToRegs p (fst (applyFrequencyToRegs s p regImage)) ! r) AND 0xF) = r
         \<and> (applyOutputToRegs p (fst (applyFrequencyToRegs s p regImage)) ! r) AND NOT 0xF
             = (regImage ! r) AND NOT 0xF"
proof -
  have e: "applyOutputToRegs p (fst (applyFrequencyToRegs s p regImage))
             = fold patch_addr [12, 11, 10, 9, 8, 7, 6, 5, 4, 3, 2, 1, 0] regImage"
    by (simp only: applyOutputToRegs_def applyFrequencyToRegs_def fst_conv)
  have n: "applyOutputToRegs p (fst (applyFrequencyToRegs s p regImage)) ! r
             = withAddr (regImage ! r) (of_nat r)"
    unfolding e using assms by (rule nth_patched)
  have l: "length (applyOutputToRegs p (fst (applyFrequencyToRegs s p regImage))) = 13"
    unfolding e using assms(1) by (simp only: length_fold_patch_addr)
  show ?thesis
    unfolding n using l assms(2) by (simp only: addr_low_nat withAddr_high simp_thms)
qed

theorem applyFrequencyToRegs_address_bits_witness:
  "length regImage_init = 13 \<and> (4::nat) < 13
   \<and> length (applyOutputToRegs
         \<lparr> pfd_hz = 10000000, INT' = 1052, FRAC = 1, MOD = 2, out_div = 1,
           rfouta_en = False, rfoutb_en = True, pwr = PWR_MAX \<rparr>
         (fst (applyFrequencyToRegs user_settings
           \<lparr> pfd_hz = 10000000, INT' = 1052, FRAC = 1, MOD = 2, out_div = 1,
             rfouta_en = False, rfoutb_en = True, pwr = PWR_MAX \<rparr> regImage_init))) = 13
   \<and> unat ((applyOutputToRegs
         \<lparr> pfd_hz = 10000000, INT' = 1052, FRAC = 1, MOD = 2, out_div = 1,
           rfouta_en = False, rfoutb_en = True, pwr = PWR_MAX \<rparr>
         (fst (applyFrequencyToRegs user_settings
           \<lparr> pfd_hz = 10000000, INT' = 1052, FRAC = 1, MOD = 2, out_div = 1,
             rfouta_en = False, rfoutb_en = True, pwr = PWR_MAX \<rparr> regImage_init)) ! 4) AND 0xF) = 4
   \<and> (applyOutputToRegs
         \<lparr> pfd_hz = 10000000, INT' = 1052, FRAC = 1, MOD = 2, out_div = 1,
           rfouta_en = False, rfoutb_en = True, pwr = PWR_MAX \<rparr>
         (fst (applyFrequencyToRegs user_settings
           \<lparr> pfd_hz = 10000000, INT' = 1052, FRAC = 1, MOD = 2, out_div = 1,
             rfouta_en = False, rfoutb_en = True, pwr = PWR_MAX \<rparr> regImage_init)) ! 4) AND NOT 0xF
        = (regImage_init ! 4) AND NOT 0xF"
proof -
  have l: "length regImage_init = 13" by (simp add: regImage_init_def)
  have r: "(4::nat) < 13" by simp
  from applyFrequencyToRegs_address_bits [OF l r] l r show ?thesis
    by (intro conjI) simp_all
qed

section \<open>Register writes on the bus\<close>

lemma writeReg_events:
  "writeReg reg =
     [BeginTransaction hspi,
      Transfer hspi (of_nat (unat reg div 2 ^ 24 mod 256)),
      Transfer hspi (of_nat (unat reg div 2 ^ 16 mod 256)),
      Transfer hspi (of_nat (unat reg div 2 ^ 8 mod 256)),
      Transfer hspi (of_nat (unat reg mod 256)),
      EndTransaction hspi,
      DigitalWrite PIN_LE HIGH, DelayMicroseconds 2, DigitalWrite PIN_LE LOW, DelayMicroseconds 2]"
  using byte_of_word [of 0 reg]
  by (simp add: writeReg_def pulseLE_def byte_of_word del: drop_bit_0)

lemma sketch_writeReg_events:
  "sketch_writeReg spi pinLE reg =
     [BeginTransaction spi,
      Transfer spi (of_nat (unat reg div 2 ^ 24 mod 256)),
      Transfer spi (of_nat (unat reg div 2 ^ 16 mod 256)),
      Transfer spi (of_nat (unat reg div 2 ^ 8 mod 256)),
      Transfer spi (of_nat (unat reg mod 256)),
      EndTransaction spi,
      DigitalWrite pinLE HIGH, DelayMicroseconds 2, DigitalWrite pinLE LOW, DelayMicroseconds 2]"
  using byte_of_word [of 0 reg]
  by (simp add: sketch_writeReg_def sketch_pulseLE_def byte_of_word del: drop_bit_0)

lemma writeAllRegs_unfold:
  "writeAllRegs regImage =
     concat (map (\<lambda>i. writeReg (regImage ! i) @ [Delay 2]) [12, 11, 10, 9, 8, 7, 6, 5, 4, 3, 2, 1, 0])"
  by (simp add: writeAllRegs_def writeAllRegs_loop.simps [of _ 12] writeAllRegs_loop.simps [of _ 11]
      writeAllRegs_loop.simps [of _ 10] writeAllRegs_loop.simps [of _ 9] writeAllRegs_loop.simps [of _ 8]
      writeAllRegs_loop.simps [of _ 7] writeAllRegs_loop.simps [of _ 6] writeAllRegs_loop.simps [of _ 5]
      writeAllRegs_loop.simps [of _ 4] writeAllRegs_loop.simps [of _ 3] writeAllRegs_loop.simps [of _ 2]
      writeAllRegs_loop.simps [of _ 1] writeAllRegs_loop.simps [of _ 0] writeAllRegs_loop.simps [of _ "-1"])

text \<open>The loop of programPLL from any index: what is left of the array, in array order.\<close>

lemma hw_events_Nil: "hw_events [] = []"
  by (simp add: hw_events_def)

lemma hw_events_Cons:
  "hw_events (e # es) = (if is_serial e then hw_events es else e # hw_events es)"
  by (simp add: hw_events_def)

lemma hw_events_append: "hw_events (xs @ ys) = hw_events xs @ hw_events ys"
  by (simp add: hw_events_def)

lemma hw_events_sketch_writeReg:
  "hw_events (sketch_writeReg spi pinLE reg) = sketch_writeReg spi pinLE reg"
  by (simp add: hw_events_def sketch_writeReg_def sketch_pulseLE_def)

lemma programPLL_loop_hw:
  "0 \<le> i \<Longrightarrow> hw_events (programPLL_loop spi pinLE name regs i) =
     concat (map (\<lambda>j. sketch_writeReg spi pinLE (regs ! j) @ [Delay 2]) [nat i..<13])"
proof (induction spi pinLE name regs i rule: programPLL_loop.induct)
  case (1 spi pinLE name regs i)
  show ?case
  proof (cases "i < 13")
    case True
    with 1 have IH: "hw_events (programPLL_loop spi pinLE name regs (i + 1)) =
        concat (map (\<lambda>j. sketch_writeReg spi pinLE (regs ! j) @ [Delay 2]) [nat (i + 1)..<13])"
      by simp
    have up: "[nat i..<13] = nat i # [nat (i + 1)..<13]"
      using True 1(2) by (simp add: upt_conv_Cons nat_add_distrib)
    have "hw_events (programPLL_loop spi pinLE name regs i) =
        hw_events ([Serial_printf ''%s: Writing R%d = 0x%08lX\<newline>''
              [ArgS name, ArgI (12 - i), ArgU (unat (regs ! nat i))]]
           @ sketch_writeReg spi pinLE (regs ! nat i)
           @ [Delay 2]
           @ programPLL_loop spi pinLE name regs (i + 1))"
      using True by (subst programPLL_loop.simps) simp
    also have "\<dots> = sketch_writeReg spi pinLE (regs ! nat i) @ [Delay 2]
           @ hw_events (programPLL_loop spi pinLE name regs (i + 1))"
      by (simp add: hw_events_append hw_events_sketch_writeReg hw_events_Cons hw_events_Nil)
    finally show ?thesis
      by (simp add: IH up)
  next
    case False
    then show ?thesis
      by (subst programPLL_loop.simps) (simp add: hw_events_Nil)
  qed
qed

lemma bus_bytes_append: "bus_bytes b (xs @ ys) = bus_bytes b xs @ bus_bytes b ys"
  by (induction b xs rule: bus_bytes.induct) simp_all

lemma bus_bytes_hw_events: "bus_bytes b (hw_events es) = bus_bytes b es"
  by (induction b es rule: bus_bytes.induct) (simp_all add: hw_events_Cons hw_events_Nil)

lemma bus_bytes_sketch_writeReg:
  "bus_bytes b (sketch_writeReg spi pinLE reg @ [Delay 2]) =
     (if spi = b
      then [of_nat (unat reg div 2 ^ 24 mod 256), of_nat (unat reg div 2 ^ 16 mod 256),
            of_nat (unat reg div 2 ^ 8 mod 256), of_nat (unat reg mod 256)]
      else [])"
  by (simp add: sketch_writeReg_events)

lemma bus_bytes_concat:
  "bus_bytes b (concat xss) = concat (map (bus_bytes b) xss)"
  by (induction xss) (simp_all add: bus_bytes_append)

lemma concat_map_empty: "concat (map (\<lambda>j. []) xs) = []"
  by (induction xs) simp_all

lemma bus_bytes_programPLL_loop:
  "0 \<le> i \<Longrightarrow> bus_bytes b (programPLL_loop spi pinLE name regs i) =
     (if spi = b
      then concat (map (\<lambda>j. [of_nat (unat (regs ! j) div 2 ^ 24 mod 256),
                               of_nat (unat (regs ! j) div 2 ^ 16 mod 256),
                               of_nat (unat (regs ! j) div 2 ^ 8 mod 256),
                               of_nat (unat (regs ! j) mod 256)]) [nat i..<13])
      else [])"
proof -
  assume i: "0 \<le> i"
  have "bus_bytes b (programPLL_loop spi pinLE name regs i)
          = bus_bytes b (hw_events (programPLL_loop spi pinLE name regs i))"
    by (simp only: bus_bytes_hw_events)
  also have "\<dots> = concat (map (\<lambda>j. bus_bytes b (sketch_writeReg spi pinLE (regs ! j) @ [Delay 2]))
                      [nat i..<13])"
    by (simp only: programPLL_loop_hw [OF i] bus_bytes_concat map_map comp_def)
  finally show ?thesis
    by (cases "spi = b") (simp_all only: bus_bytes_sketch_writeReg if_True if_False concat_map_empty simp_thms)
qed

text \<open>
  C8. The bytes shifted out when a device is programmed depend on the register set
  only: the loop of \<^verbatim>\<open>programPLL\<close> over any register array puts the same bytes on
  any two buses, whatever the latch pin and the name; so do any two calls of
  \<^verbatim>\<open>programPLL\<close>; and in \<^verbatim>\<open>setup\<close> boards A and B receive the same 52 bytes, the
  thirteen words of the register set, each most significant byte first.
\<close>

theorem programPLL_same_bytes:
  "bus_bytes spi (programPLL_loop spi pinLE name regs 0)
     = bus_bytes spi' (programPLL_loop spi' pinLE' name' regs 0)
   \<and> bus_bytes spi (programPLL spi pinLE name) = bus_bytes spi' (programPLL spi' pinLE' name')
   \<and> bus_bytes spiA sketch_setup = bus_bytes spiB sketch_setup
   \<and> bus_bytes spiA sketch_setup =
       [0x00, 0x01, 0x04, 0x0C,  0x00, 0x61, 0x30, 0x0B,  0x00, 0xC0, 0x00, 0x0A,
        0x00, 0x00, 0x00, 0x09,  0x10, 0x2D, 0x04, 0x28,  0x12, 0x00, 0x00, 0x07,
        0x35, 0x00, 0x00, 0x06,  0x00, 0x80, 0x00, 0x05,  0x00, 0x00, 0x00, 0x04,
        0x00, 0x00, 0x00, 0x03,  0x00, 0x00, 0x10, 0x02,  0x00, 0x00, 0x0A, 0x41,
        0x00, 0x55, 0x00, 0x00]"
proof -
  have loop: "bus_bytes b (programPLL_loop spi pinLE name regs 0) =
     (if spi = b
      then concat (map (\<lambda>j. [of_nat (unat (regs ! j) div 2 ^ 24 mod 256),
                               of_nat (unat (regs ! j) div 2 ^ 16 mod 256),
                               of_nat (unat (regs ! j) div 2 ^ 8 mod 256),
                               of_nat (unat (regs ! j) mod 256)]) [0..<13])
      else [])" for b spi pinLE name regs
    using bus_bytes_programPLL_loop [of 0 b spi pinLE name regs] by simp
  have pll: "bus_bytes b (programPLL spi pinLE name) = bus_bytes b (programPLL_loop spi pinLE name sketch_regs 0)"
    for b spi pinLE name
    by (simp add: programPLL_def bus_bytes_append)
  have c1: "bus_bytes spi (programPLL_loop spi pinLE name regs 0)
     = bus_bytes spi' (programPLL_loop spi' pinLE' name' regs 0)"
    for spi spi' pinLE pinLE' name name' regs
    by (simp only: loop if_True refl)
  have c2: "bus_bytes spi (programPLL spi pinLE name) = bus_bytes spi' (programPLL spi' pinLE' name')"
    by (simp only: pll loop if_True refl)
  have upt13: "[0..<13] = [0, 1, 2, 3, 4, 5, 6, 7, 8, 9, 10, 11, 12]"
    by (simp add: upt_rec)
  have A: "bus_bytes spiA sketch_setup = bus_bytes spiA (programPLL_loop spiA A_LE ''ADF-A'' sketch_regs 0)"
    by (simp add: sketch_setup_def bus_bytes_append pll loop)
  have B: "bus_bytes spiB sketch_setup = bus_bytes spiB (programPLL_loop spiB B_LE ''ADF-B'' sketch_regs 0)"
    by (simp add: sketch_setup_def bus_bytes_append pll loop)
  have c3: "bus_bytes spiA sketch_setup = bus_bytes spiB sketch_setup"
    unfolding A B by (rule c1)
  have c4: "bus_bytes spiA sketch_setup =
       [0x00, 0x01, 0x04, 0x0C,  0x00, 0x61, 0x30, 0x0B,  0x00, 0xC0, 0x00, 0x0A,
        0x00, 0x00, 0x00, 0x09,  0x10, 0x2D, 0x04, 0x28,  0x12, 0x00, 0x00, 0x07,
        0x35, 0x00, 0x00, 0x06,  0x00, 0x80, 0x00, 0x05,  0x00, 0x00, 0x00, 0x04,
        0x00, 0x00, 0x00, 0x03,  0x00, 0x00, 0x10, 0x02,  0x00, 0x00, 0x0A, 0x41,
        0x00, 0x55, 0x00, 0x00]"
    unfolding A by (simp add: loop upt13 sketch_regs_def)
  from c1 c2 c3 c4 show ?thesis by (intro conjI)
qed

section \<open>Write order\<close>

lemma upt13: "[0..<13] = [0, 1, 2, 3, 4, 5, 6, 7, 8, 9, 10, 11, 12]"
  by (simp add: upt_rec)

text \<open>
  C5. For every 13-word image, \<^verbatim>\<open>writeAllRegs\<close> writes index 12 first and index 0
  last; each word goes out as one transaction of exactly four bytes, the most
  significant first (byte \<open>k\<close> of a word \<open>w\<close> is \<open>w div 2^(8k) mod 256\<close>), followed
  by the latch pulse (high, 2 microseconds, low, 2 microseconds) and a delay of 2 ms
  before the next word. After \<^verbatim>\<open>applyFrequencyToRegs\<close> the word at index \<open>i\<close> carries
  the address \<open>i\<close>, so the addresses on the wire run from 12 down to 0. The sketch's
  \<^verbatim>\<open>programPLL\<close> sends its array in array order with the same framing on its own bus
  and latch pin, and the array lists the registers from address 12 down to address 0.
\<close>

theorem register_write_order:
  assumes "length regImage = 13" and "length regs = 13"
  shows "writeAllRegs regImage =
           concat (map (\<lambda>i.
               [BeginTransaction hspi,
                Transfer hspi (of_nat (unat (regImage ! i) div 2 ^ 24 mod 256)),
                Transfer hspi (of_nat (unat (regImage ! i) div 2 ^ 16 mod 256)),
                Transfer hspi (of_nat (unat (regImage ! i) div 2 ^ 8 mod 256)),
                Transfer hspi (of_nat (unat (regImage ! i) mod 256)),
                EndTransaction hspi,
                DigitalWrite PIN_LE HIGH, DelayMicroseconds 2,
                DigitalWrite PIN_LE LOW, DelayMicroseconds 2,
                Delay 2])
             [12, 11, 10, 9, 8, 7, 6, 5, 4, 3, 2, 1, 0])
         \<and> map (\<lambda>i. unat ((fst (applyFrequencyToRegs s p regImage) ! i) AND 0xF))
               [12, 11, 10, 9, 8, 7, 6, 5, 4, 3, 2, 1, 0]
             = [12, 11, 10, 9, 8, 7, 6, 5, 4, 3, 2, 1, 0]
         \<and> hw_events (programPLL_loop spi pinLE name regs 0) =
           concat (map (\<lambda>i.
               [BeginTransaction spi,
                Transfer spi (of_nat (unat (regs ! i) div 2 ^ 24 mod 256)),
                Transfer spi (of_nat (unat (regs ! i) div 2 ^ 16 mod 256)),
                Transfer spi (of_nat (unat (regs ! i) div 2 ^ 8 mod 256)),
                Transfer spi (of_nat (unat (regs ! i) mod 256)),
                EndTransaction spi,
                DigitalWrite pinLE HIGH, DelayMicroseconds 2,
                DigitalWrite pinLE LOW, DelayMicroseconds 2,
                Delay 2])
             [0, 1, 2, 3, 4, 5, 6, 7, 8, 9, 10, 11, 12])
         \<and> hw_events (programPLL spi pinLE name) = hw_events (programPLL_loop spi pinLE name sketch_regs 0)
         \<and> map (\<lambda>w. unat (w AND 0xF)) sketch_regs = [12, 11, 10, 9, 8, 7, 6, 5, 4, 3, 2, 1, 0]"
proof -
  have a: "writeAllRegs regImage =
           concat (map (\<lambda>i.
               [BeginTransaction hspi,
                Transfer hspi (of_nat (unat (regImage ! i) div 2 ^ 24 mod 256)),
                Transfer hspi (of_nat (unat (regImage ! i) div 2 ^ 16 mod 256)),
                Transfer hspi (of_nat (unat (regImage ! i) div 2 ^ 8 mod 256)),
                Transfer hspi (of_nat (unat (regImage ! i) mod 256)),
                EndTransaction hspi,
                DigitalWrite PIN_LE HIGH, DelayMicroseconds 2,
                DigitalWrite PIN_LE LOW, DelayMicroseconds 2,
                Delay 2])
             [12, 11, 10, 9, 8, 7, 6, 5, 4, 3, 2, 1, 0])"
    by (simp add: writeAllRegs_unfold writeReg_events)
  have n: "unat ((fst (applyFrequencyToRegs s p regImage) ! i) AND 0xF) = i" if "i < 13" for i
    using nth_patched [OF assms(1) that] addr_low_nat [OF that]
    by (simp only: applyFrequencyToRegs_def fst_conv)
  have b: "map (\<lambda>i. unat ((fst (applyFrequencyToRegs s p regImage) ! i) AND 0xF))
               [12, 11, 10, 9, 8, 7, 6, 5, 4, 3, 2, 1, 0]
             = [12, 11, 10, 9, 8, 7, 6, 5, 4, 3, 2, 1, 0]"
    by (simp add: n)
  have c: "hw_events (programPLL_loop spi pinLE name regs 0) =
           concat (map (\<lambda>i.
               [BeginTransaction spi,
                Transfer spi (of_nat (unat (regs ! i) div 2 ^ 24 mod 256)),
                Transfer spi (of_nat (unat (regs ! i) div 2 ^ 16 mod 256)),
                Transfer spi (of_nat (unat (regs ! i) div 2 ^ 8 mod 256)),
                Transfer spi (of_nat (unat (regs ! i) mod 256)),
                EndTransaction spi,
                DigitalWrite pinLE HIGH, DelayMicroseconds 2,
                DigitalWrite pinLE LOW, DelayMicroseconds 2,
                Delay 2])
             [0, 1, 2, 3, 4, 5, 6, 7, 8, 9, 10, 11, 12])"
    using programPLL_loop_hw [of 0 spi pinLE name regs]
    by (simp add: upt13 sketch_writeReg_events)
  have d: "hw_events (programPLL spi pinLE name) = hw_events (programPLL_loop spi pinLE name sketch_regs 0)"
    by (simp add: programPLL_def hw_events_append hw_events_Cons hw_events_Nil)
  have e: "map (\<lambda>w. unat (w AND 0xF)) sketch_regs = [12, 11, 10, 9, 8, 7, 6, 5, 4, 3, 2, 1, 0]"
    by (simp add: sketch_regs_def)
  from a b c d e show ?thesis by (intro conjI)
qed

theorem register_write_order_witness:
  "length regImage_init = 13 \<and> length sketch_regs = 13
   \<and> length (writeAllRegs regImage_init) = 143
   \<and> take 11 (writeAllRegs regImage_init) =
       [BeginTransaction hspi, Transfer hspi 0x00, Transfer hspi 0x55, Transfer hspi 0x00,
        Transfer hspi 0x00, EndTransaction hspi,
        DigitalWrite PIN_LE HIGH, DelayMicroseconds 2, DigitalWrite PIN_LE LOW, DelayMicroseconds 2,
        Delay 2]
   \<and> take 11 (hw_events (programPLL_loop spiA A_LE ''ADF-A'' sketch_regs 0)) =
       [BeginTransaction spiA, Transfer spiA 0x00, Transfer spiA 0x01, Transfer spiA 0x04,
        Transfer spiA 0x0C, EndTransaction spiA,
        DigitalWrite A_LE HIGH, DelayMicroseconds 2, DigitalWrite A_LE LOW, DelayMicroseconds 2,
        Delay 2]"
proof -
  have l: "length regImage_init = 13" by (simp add: regImage_init_def)
  have k: "length sketch_regs = 13" by (simp add: sketch_regs_def)
  note t = register_write_order [OF l k, of user_settings
      "\<lparr> pfd_hz = 10000000, INT' = 1052, FRAC = 1, MOD = 2, out_div = 1,
         rfouta_en = False, rfoutb_en = True, pwr = PWR_MAX \<rparr>" spiA A_LE "''ADF-A''"]
  have w: "length (writeAllRegs regImage_init) = 143"
    using t by simp
  have x: "take 11 (writeAllRegs regImage_init) =
       [BeginTransaction hspi, Transfer hspi 0x00, Transfer hspi 0x55, Transfer hspi 0x00,
        Transfer hspi 0x00, EndTransaction hspi,
        DigitalWrite PIN_LE HIGH, DelayMicroseconds 2, DigitalWrite PIN_LE LOW, DelayMicroseconds 2,
        Delay 2]"
    using t by (simp add: regImage_init_def)
  have y: "take 11 (hw_events (programPLL_loop spiA A_LE ''ADF-A'' sketch_regs 0)) =
       [BeginTransaction spiA, Transfer spiA 0x00, Transfer spiA 0x01, Transfer spiA 0x04,
        Transfer spiA 0x0C, EndTransaction spiA,
        DigitalWrite A_LE HIGH, DelayMicroseconds 2, DigitalWrite A_LE LOW, DelayMicroseconds 2,
        Delay 2]"
    using t by (simp add: sketch_regs_def)
  from l k w x y show ?thesis by (intro conjI)
qed

section \<open>Chip enable\<close>

lemma ce_back_to_back_loop: "ce_back_to_back (sketch_loop @ es) = ce_back_to_back es"
  by (simp add: sketch_loop_def A_CE_def B_CE_def)

text \<open>
  C9. In any number of rounds of the sketch's \<^verbatim>\<open>loop\<close>, every write to board A's
  chip-enable line is followed at once by the write of the same level to board B's
  line: no delay, and no other event, stands between the two.
\<close>

theorem sketch_loop_ce_back_to_back: "ce_back_to_back (sketch_loops n)"
  by (induction n) (simp_all add: ce_back_to_back_loop)

theorem sketch_loop_ce_back_to_back_witness:
  "ce_back_to_back (sketch_loops 2)
   \<and> sketch_loops 1 =
       [Serial_println ''BOTH ON (CE HIGH)'',
        DigitalWrite A_CE HIGH, DigitalWrite B_CE HIGH, Delay 3000,
        Serial_println ''BOTH OFF (CE LOW)'',
        DigitalWrite A_CE LOW, DigitalWrite B_CE LOW, Delay 3000]
   \<and> \<not> ce_back_to_back [DigitalWrite A_CE HIGH, Delay 3000, DigitalWrite B_CE HIGH]"
  using sketch_loop_ce_back_to_back [of 2]
  by (simp add: sketch_loop_def A_CE_def B_CE_def)

section \<open>The latch line\<close>

lemma pin_after_append: "pin_after pin l (xs @ ys) = pin_after pin (pin_after pin l xs) ys"
  by (induction xs arbitrary: l) simp_all

lemma while_high_append:
  "while_high pin l (xs @ ys) = while_high pin l xs @ while_high pin (pin_after pin l xs) ys"
  by (induction xs arbitrary: l) simp_all

lemma pin_after_sketch_writeReg: "pin_after pinLE l (sketch_writeReg spi pinLE reg) = LOW"
  by (simp add: sketch_writeReg_def sketch_pulseLE_def)

lemma pin_after_writeReg: "pin_after PIN_LE l (writeReg reg) = LOW"
  by (simp add: writeReg_def pulseLE_def)

lemma while_high_writeReg:
  "while_high PIN_LE LOW (writeReg reg) = [DelayMicroseconds 2, DigitalWrite PIN_LE LOW]"
  by (simp add: writeReg_def pulseLE_def)

lemma while_high_sketch_writeReg:
  "while_high pinLE LOW (sketch_writeReg spi pinLE reg) = [DelayMicroseconds 2, DigitalWrite pinLE LOW]"
  by (simp add: sketch_writeReg_def sketch_pulseLE_def)

lemma pin_after_sketch_writeReg_other:
  "pin \<noteq> pinLE \<Longrightarrow> pin_after pin l (sketch_writeReg spi pinLE reg) = l"
  by (simp add: sketch_writeReg_def sketch_pulseLE_def)

lemma pin_after_programPLL_loop_other:
  "pin \<noteq> pinLE \<Longrightarrow> pin_after pin l (programPLL_loop spi pinLE name regs i) = l"
proof (induction spi pinLE name regs i rule: programPLL_loop.induct)
  case (1 spi pinLE name regs i)
  show ?case
  proof (cases "i < 13")
    case True
    with 1 show ?thesis
      by (subst programPLL_loop.simps) (simp add: pin_after_append pin_after_sketch_writeReg_other)
  next
    case False
    then show ?thesis by (subst programPLL_loop.simps) simp
  qed
qed

lemma pin_after_programPLL_loop:
  "pin_after pinLE LOW (programPLL_loop spi pinLE name regs i) = LOW"
proof (induction spi pinLE name regs i rule: programPLL_loop.induct)
  case (1 spi pinLE name regs i)
  show ?case
  proof (cases "i < 13")
    case True
    with 1 show ?thesis
      by (subst programPLL_loop.simps) (simp add: pin_after_append pin_after_sketch_writeReg)
  next
    case False
    then show ?thesis by (subst programPLL_loop.simps) simp
  qed
qed

lemma while_high_programPLL_loop:
  "0 \<le> i \<Longrightarrow> while_high pinLE LOW (programPLL_loop spi pinLE name regs i) =
     concat (replicate (nat (13 - i)) [DelayMicroseconds 2, DigitalWrite pinLE LOW])"
proof (induction spi pinLE name regs i rule: programPLL_loop.induct)
  case (1 spi pinLE name regs i)
  show ?case
  proof (cases "i < 13")
    case True
    then have r: "nat (13 - i) = Suc (nat (13 - (i + 1)))" by simp
    from True 1 show ?thesis
      by (subst programPLL_loop.simps)
         (simp add: while_high_append pin_after_append pin_after_sketch_writeReg
            while_high_sketch_writeReg r del: replicate_Suc replicate.simps, simp)
  next
    case False
    then show ?thesis by (subst programPLL_loop.simps) simp
  qed
qed

text \<open>
  C10. Whatever the level of the latch line before, it is low after \<^verbatim>\<open>writeReg\<close>
  and after \<^verbatim>\<open>writeAllRegs\<close>; started low, the only events issued while it is
  high are the 2 microsecond hold and the write that drives it low again, once per
  register. The same holds for the sketch's \<^verbatim>\<open>writeReg\<close> and \<^verbatim>\<open>programPLL\<close> on
  their latch pin, and both latch lines are low after \<^verbatim>\<open>setup\<close>.
\<close>

theorem latch_low_after_write:
  "pin_after PIN_LE l (writeReg reg) = LOW
   \<and> while_high PIN_LE LOW (writeReg reg) = [DelayMicroseconds 2, DigitalWrite PIN_LE LOW]
   \<and> pin_after PIN_LE l (writeAllRegs regImage) = LOW
   \<and> while_high PIN_LE LOW (writeAllRegs regImage)
       = concat (replicate 13 [DelayMicroseconds 2, DigitalWrite PIN_LE LOW])
   \<and> pin_after pinLE l (sketch_writeReg spi pinLE reg) = LOW
   \<and> while_high pinLE LOW (sketch_writeReg spi pinLE reg)
       = [DelayMicroseconds 2, DigitalWrite pinLE LOW]
   \<and> pin_after pinLE LOW (programPLL spi pinLE name) = LOW
   \<and> while_high pinLE LOW (programPLL spi pinLE name)
       = concat (replicate 13 [DelayMicroseconds 2, DigitalWrite pinLE LOW])
   \<and> pin_after A_LE l sketch_setup = LOW \<and> pin_after B_LE l sketch_setup = LOW"
proof -
  have a: "pin_after PIN_LE l (writeAllRegs regImage) = LOW"
    by (simp add: writeAllRegs_unfold pin_after_append pin_after_writeReg)
  have b: "while_high PIN_LE LOW (writeAllRegs regImage)
       = concat (replicate 13 [DelayMicroseconds 2, DigitalWrite PIN_LE LOW])"
    by (simp add: writeAllRegs_unfold while_high_append pin_after_append pin_after_writeReg
        while_high_writeReg eval_nat_numeral)
  have c: "pin_after pinLE LOW (programPLL spi pinLE name) = LOW"
    by (simp add: programPLL_def pin_after_append pin_after_programPLL_loop)
  have d: "while_high pinLE LOW (programPLL spi pinLE name)
       = concat (replicate 13 [DelayMicroseconds 2, DigitalWrite pinLE LOW])"
    using while_high_programPLL_loop [of 0 pinLE spi name sketch_regs]
    by (simp add: programPLL_def while_high_append pin_after_append pin_after_programPLL_loop)
  have ne: "A_LE \<noteq> B_LE" "B_LE \<noteq> A_LE" "A_CE \<noteq> A_LE" "B_CE \<noteq> A_LE"
      "A_CE \<noteq> B_LE" "B_CE \<noteq> B_LE"
    by (simp_all add: A_LE_def A_CE_def B_LE_def B_CE_def)
  have e: "pin_after A_LE l sketch_setup = LOW"
    by (simp add: sketch_setup_def pin_after_append programPLL_def pin_after_programPLL_loop
        pin_after_programPLL_loop_other ne)
  have f: "pin_after B_LE l sketch_setup = LOW"
    by (simp add: sketch_setup_def pin_after_append programPLL_def pin_after_programPLL_loop
        pin_after_programPLL_loop_other ne)
  from pin_after_writeReg while_high_writeReg a b pin_after_sketch_writeReg
    while_high_sketch_writeReg c d e f
  show ?thesis by (intro conjI)
qed

section \<open>Out-of-band targets\<close>

text \<open>
  C2, evaluated where it fails. With \<^verbatim>\<open>RF_OUT_HZ\<close> set to 14 GHz no divider brings
  the VCO into the band: \<^verbatim>\<open>configureFromUserSettings\<close> prints the error message
  first and then writes all thirteen registers, 52 bytes, to the device. With
  1.640625 MHz the VCO stays below the band even at the divider 64:
  \<^verbatim>\<open>planFrequency\<close> prints nothing, and the 52 bytes are written as well.
\<close>

theorem configureFromUserSettings_out_of_band_writes:
  "map_option (hd \<circ> snd) (configureFromUserSettings (user_settings\<lparr>RF_OUT_HZ := 14000000000\<rparr>) regImage_init)
     = Some (Serial_println ''ERROR: Cannot place VCO in range with available dividers.'')
   \<and> map_option (bus_bytes hspi \<circ> snd)
        (configureFromUserSettings (user_settings\<lparr>RF_OUT_HZ := 14000000000\<rparr>) regImage_init)
     = Some [0x00, 0x55, 0x00, 0x0C,  0x00, 0x00, 0x0A, 0x4B,  0x00, 0x00, 0x10, 0x0A,
             0x00, 0x00, 0x00, 0x09,  0x00, 0x00, 0x00, 0x08,  0x00, 0x80, 0x00, 0x07,
             0x35, 0x00, 0x00, 0x06,  0x12, 0x00, 0x00, 0x05,  0x10, 0x2D, 0x04, 0x24,
             0x00, 0x00, 0x00, 0x03,  0x00, 0xC0, 0x00, 0x02,  0x00, 0x61, 0x30, 0x01,
             0x00, 0x01, 0x04, 0x00]
   \<and> planFrequency user_settings 1640625
     = Some (\<lparr> pfd_hz = 10000000, INT' = 10, FRAC = 1, MOD = 2, out_div = 64,
               rfouta_en = False, rfoutb_en = True, pwr = PWR_MAX \<rparr>, [])
   \<and> map_option (length \<circ> bus_bytes hspi \<circ> snd)
        (configureFromUserSettings (user_settings\<lparr>RF_OUT_HZ := 1640625\<rparr>) regImage_init)
     = Some 52"
  by (simp add: configureFromUserSettings_def plan_defs out_div_loop.simps user_settings_def
      applyFrequencyToRegs_def applyOutputToRegs_def patch_addr_def withAddr_def regImage_init_def
      writeAllRegs_unfold writeReg_def pulseLE_def bus_bytes_append)

end
